theory Spec2Isabelle
  imports Complex_Main "HOL-Library.Sublist"
begin

section \<open>JavaScript values\<close>

text \<open>
  The module \<^verbatim>\<open>packages/remix-node/data.ts\<close> handles values of type \<^verbatim>\<open>any\<close>: what a
  route's loader or action resolves to. They are modelled by the language types that
  \<^verbatim>\<open>typeof\<close> distinguishes. An object or a function carries the list of its properties.
  A number is a real: the rounding of IEEE doubles is not modelled.
\<close>

type_synonym number = real

datatype jsval =
    JUndefined
  | JNull
  | JBoolean bool
  | JNumber number
  | JString string
  | JBigInt int
  | JSymbol string
  | JFunction "(string \<times> jsval) list"
  | JObject "(string \<times> jsval) list"

fun typeof :: "jsval \<Rightarrow> string" where
  "typeof JUndefined = ''undefined''"
| "typeof JNull = ''object''"
| "typeof (JBoolean b) = ''boolean''"
| "typeof (JNumber n) = ''number''"
| "typeof (JString s) = ''string''"
| "typeof (JBigInt i) = ''bigint''"
| "typeof (JSymbol d) = ''symbol''"
| "typeof (JFunction ps) = ''function''"
| "typeof (JObject ps) = ''object''"

text \<open>
  \<^verbatim>\<open>value.key\<close> for a value other than \<^verbatim>\<open>null\<close> and \<^verbatim>\<open>undefined\<close>. A primitive has
  none of the four properties that \<^verbatim>\<open>isResponse\<close> reads, so reading one yields
  \<^verbatim>\<open>undefined\<close>.
\<close>

fun get_property :: "jsval \<Rightarrow> string \<Rightarrow> jsval" where
  "get_property (JObject ps) k = (case map_of ps k of None \<Rightarrow> JUndefined | Some v \<Rightarrow> v)"
| "get_property (JFunction ps) k = (case map_of ps k of None \<Rightarrow> JUndefined | Some v \<Rightarrow> v)"
| "get_property v k = JUndefined"

text \<open>
  \<^verbatim>\<open>isResponse\<close>, lines 82 to 90. \<^verbatim>\<open>value != null\<close> is the loose comparison: it is false
  for \<^verbatim>\<open>null\<close> and for \<^verbatim>\<open>undefined\<close>, and then \<^verbatim>\<open>&&\<close> reads no property.
\<close>

definition isResponse :: "jsval \<Rightarrow> bool" where
  "isResponse v =
     (if v = JNull \<or> v = JUndefined then False
      else typeof (get_property v ''status'') = ''number'' \<and>
           typeof (get_property v ''statusText'') = ''string'' \<and>
           typeof (get_property v ''headers'') = ''object'' \<and>
           typeof (get_property v ''body'') \<noteq> ''undefined'')"

section \<open>Promises, the world and callbacks\<close>

text \<open>
  What an \<^verbatim>\<open>await\<close> can receive a rejection with: an \<^verbatim>\<open>Error\<close> carrying a message, the
  \<^verbatim>\<open>TypeError\<close> of a property read on \<^verbatim>\<open>undefined\<close>, or any other thrown value.
\<close>

datatype thrown = Error string | TypeError | Thrown jsval

fun is_Error :: "thrown \<Rightarrow> bool" where
  "is_Error (Error m) = True"
| "is_Error TypeError = True"
| "is_Error (Thrown v) = False"

datatype 'a outcome = Resolved 'a | Rejected thrown

text \<open>
  The \<^verbatim>\<open>Timings\<close> object handed to \<^verbatim>\<open>timer\<close> lives in the world: its keys, in the order in
  which \<^verbatim>\<open>Object.entries\<close> enumerates them, each holding a reference to an array, and the
  arrays themselves in a store, since \<^verbatim>\<open>push\<close> updates an array in place. \<^verbatim>\<open>now\<close> is what
  \<^verbatim>\<open>performance.now()\<close> reads.
\<close>

type_synonym ref = nat

record timing_info =
  name :: string
  time :: number

record world =
  now :: number
  timings :: "(string \<times> ref) list"
  arrays :: "ref \<Rightarrow> timing_info list"
  next_ref :: ref

text \<open>
  A user-supplied asynchronous function runs in the world, may change it, and resolves
  or rejects. The functions of the module return, beside their outcome and the world
  they leave, the list of user callbacks they invoked themselves.
\<close>

type_synonym 'r async_fn = "world \<Rightarrow> 'r outcome \<times> world"

datatype callback = FnCallback | LoaderCallback | ActionCallback

definition await_call :: "callback \<Rightarrow> 'r async_fn \<Rightarrow> world \<Rightarrow> 'r outcome \<times> world \<times> callback list" where
  "await_call c f w = (case f w of (r, w') \<Rightarrow> (r, w', [c]))"

section \<open>Route data: \<^verbatim>\<open>loadRouteData\<close> and \<^verbatim>\<open>callRouteAction\<close>\<close>

record request =
  "method" :: string
  url :: string

type_synonym params = "(string \<times> string) list"

text \<open>The argument object \<^verbatim>\<open>{ request, context, params, time }\<close> of a loader or action.\<close>

datatype 't data_function_args = DataFunctionArgs request jsval params 't

type_synonym 't data_function = "'t data_function_args \<Rightarrow> jsval async_fn"

record 't route_module =
  loader :: "'t data_function option"
  action :: "'t data_function option"

record 't server_route =
  module :: "'t route_module"

record 't server_build =
  routes :: "string \<Rightarrow> 't server_route option"

definition loader_missing_return :: "string \<Rightarrow> string" where
  "loader_missing_return routeId =
     ''You defined a loader for route \"'' @ routeId @ ''\" but didn't return '' @
     ''anything from your `loader` function. Please return a value or `null`.''"

definition action_missing :: "request \<Rightarrow> string \<Rightarrow> string" where
  "action_missing req routeId =
     ''You made a '' @ method req @ '' request to '' @ url req @ '' but did not provide '' @
     ''an `action` for route \"'' @ routeId @ ''\", so there is no way to handle the '' @
     ''request.''"

definition action_missing_return :: "string \<Rightarrow> string" where
  "action_missing_return routeId =
     ''You defined an action for route \"'' @ routeId @ ''\" but didn't return '' @
     ''anything from your `action` function. Please return a value or `null`.''"

text \<open>
  \<^verbatim>\<open>loadRouteData\<close>, lines 21 to 45. \<^verbatim>\<open>json\<close> is imported from \<^verbatim>\<open>./responses\<close> and is a
  parameter here. \<^verbatim>\<open>build.routes[routeId]\<close> is \<^verbatim>\<open>undefined\<close> for an unknown route, and
  reading \<^verbatim>\<open>.module\<close> of it throws inside the async function.
\<close>

definition loadRouteData ::
  "(jsval \<Rightarrow> jsval) \<Rightarrow> 't server_build \<Rightarrow> string \<Rightarrow> request \<Rightarrow> jsval \<Rightarrow> params \<Rightarrow> 't \<Rightarrow>
   world \<Rightarrow> jsval outcome \<times> world \<times> callback list" where
  "loadRouteData json build routeId req context params time' w =
     (case routes build routeId of
        None \<Rightarrow> (Rejected TypeError, w, [])
      | Some route \<Rightarrow>
          let routeModule = module route in
          (case loader routeModule of
             None \<Rightarrow> (Resolved (json JNull), w, [])
           | Some f \<Rightarrow>
               (case await_call LoaderCallback (f (DataFunctionArgs req context params time')) w of
                  (Rejected e, w', cs) \<Rightarrow> (Rejected e, w', cs)
                | (Resolved result, w', cs) \<Rightarrow>
                    if result = JUndefined
                    then (Rejected (Error (loader_missing_return routeId)), w', cs)
                    else (Resolved (if isResponse result then result else json result), w', cs))))"

text \<open>\<^verbatim>\<open>callRouteAction\<close>, lines 47 to 80.\<close>

definition callRouteAction ::
  "(jsval \<Rightarrow> jsval) \<Rightarrow> 't server_build \<Rightarrow> string \<Rightarrow> request \<Rightarrow> jsval \<Rightarrow> params \<Rightarrow> 't \<Rightarrow>
   world \<Rightarrow> jsval outcome \<times> world \<times> callback list" where
  "callRouteAction json build routeId req context params time' w =
     (case routes build routeId of
        None \<Rightarrow> (Rejected TypeError, w, [])
      | Some route \<Rightarrow>
          let routeModule = module route in
          (case action routeModule of
             None \<Rightarrow> (Rejected (Error (action_missing req routeId)), w, [])
           | Some f \<Rightarrow>
               (case await_call ActionCallback (f (DataFunctionArgs req context params time')) w of
                  (Rejected e, w', cs) \<Rightarrow> (Rejected e, w', cs)
                | (Resolved result, w', cs) \<Rightarrow>
                    if result = JUndefined
                    then (Rejected (Error (action_missing_return routeId)), w', cs)
                    else (Resolved (if isResponse result then result else json result), w', cs))))"

text \<open>
  Modelled from the spec: \<^verbatim>\<open>json\<close> of \<^verbatim>\<open>./responses\<close> is not among the sources. The
  spec calls its result an HTTP response that wraps the data as JSON, so the model
  builds an object with the four properties of a response: a numeric status, a status
  text, a headers object naming the JSON content type, and the serialised data as body.
  The serialiser (\<^verbatim>\<open>JSON.stringify\<close>) is a parameter.
\<close>

definition json_response :: "(jsval \<Rightarrow> string) \<Rightarrow> jsval \<Rightarrow> jsval" where
  "json_response stringify data =
     JObject [(''status'', JNumber 200),
              (''statusText'', JString ''OK''),
              (''headers'', JObject [(''Content-Type'', JString ''application/json'')]),
              (''body'', JString (stringify data))]"

section \<open>Reading a response body: \<^verbatim>\<open>extractData\<close>\<close>

text \<open>
  The regular expression \<^verbatim>\<open>/\bapplication\/json\b/\<close> is a sequence of atoms: a literal
  character, or the assertion \<^verbatim>\<open>\b\<close>. \<^verbatim>\<open>\b\<close> holds at a position when exactly one of the
  characters before and after it is a word character (a letter, a digit or the
  underscore); beyond either end of the string there is none. \<^verbatim>\<open>test\<close> tries every start
  position.
\<close>

datatype re_atom = Lit char | WordBoundary

definition is_word_char :: "char \<Rightarrow> bool" where
  "is_word_char c =
     (c \<in> set ''ABCDEFGHIJKLMNOPQRSTUVWXYZabcdefghijklmnopqrstuvwxyz0123456789_'')"

definition is_word_at :: "string \<Rightarrow> nat \<Rightarrow> bool" where
  "is_word_at s i = (i < length s \<and> is_word_char (s ! i))"

definition word_boundary :: "string \<Rightarrow> nat \<Rightarrow> bool" where
  "word_boundary s i = ((0 < i \<and> is_word_at s (i - 1)) \<noteq> is_word_at s i)"

fun match_at :: "re_atom list \<Rightarrow> string \<Rightarrow> nat \<Rightarrow> bool" where
  "match_at [] s i = True"
| "match_at (WordBoundary # p) s i = (word_boundary s i \<and> match_at p s i)"
| "match_at (Lit c # p) s i = (i < length s \<and> s ! i = c \<and> match_at p s (Suc i))"

definition regex_test :: "re_atom list \<Rightarrow> string \<Rightarrow> bool" where
  "regex_test p s = list_ex (match_at p s) [0..<Suc (length s)]"

definition application_json_re :: "re_atom list" where
  "application_json_re = WordBoundary # map Lit ''application/json'' @ [WordBoundary]"

text \<open>
  The part of a \<^verbatim>\<open>Response\<close> (from \<^verbatim>\<open>./fetch\<close>) that \<^verbatim>\<open>extractData\<close> uses:
  \<^verbatim>\<open>headers.get\<close>, which yields \<^verbatim>\<open>null\<close> for an absent header, and the promises that the
  methods \<^verbatim>\<open>json()\<close> and \<^verbatim>\<open>text()\<close> return. \<^verbatim>\<open>extractData\<close> returns a promise together
  with the methods of the response it called.
\<close>

record 'p response =
  headers_get :: "string \<Rightarrow> string option"
  response_json :: 'p
  response_text :: 'p

datatype response_call = HeadersGet string | ResponseJson | ResponseText

text \<open>\<^verbatim>\<open>extractData\<close>, lines 92 to 106. The empty string is falsy, like \<^verbatim>\<open>null\<close>.\<close>

definition extractData :: "'p response \<Rightarrow> 'p \<times> response_call list" where
  "extractData res =
     (let contentType = headers_get res ''Content-Type'' in
      case contentType of
        None \<Rightarrow> (response_text res, [HeadersGet ''Content-Type'', ResponseText])
      | Some ct \<Rightarrow>
          if ct \<noteq> [] \<and> regex_test application_json_re ct
          then (response_json res, [HeadersGet ''Content-Type'', ResponseJson])
          else (response_text res, [HeadersGet ''Content-Type'', ResponseText]))"

section \<open>Timings: \<^verbatim>\<open>timer\<close> and \<^verbatim>\<open>getServerTimeHeader\<close>\<close>

datatype timing_type = ActionType | LoaderType

fun type_key :: "timing_type \<Rightarrow> string" where
  "type_key ActionType = ''action''"
| "type_key LoaderType = ''loader''"

text \<open>
  \<^verbatim>\<open>timings[type] = []\<close> on a record without that key: a new array is allocated, and
  the key, which is not an integer index, comes last in the enumeration order.
\<close>

definition new_array :: "string \<Rightarrow> world \<Rightarrow> ref \<times> world" where
  "new_array k w =
     (next_ref w,
      w\<lparr>timings := timings w @ [(k, next_ref w)],
        arrays := (arrays w)(next_ref w := []),
        next_ref := Suc (next_ref w)\<rparr>)"

definition push :: "ref \<Rightarrow> timing_info \<Rightarrow> world \<Rightarrow> world" where
  "push a x w = w\<lparr>arrays := (arrays w)(a := arrays w a @ [x])\<rparr>"

text \<open>
  \<^verbatim>\<open>timer\<close>, lines 110 to 127. When \<^verbatim>\<open>fn\<close> rejects, the \<^verbatim>\<open>await\<close> throws and nothing is
  recorded. \<^verbatim>\<open>timings[type]\<close> is read after \<^verbatim>\<open>fn\<close> has resolved, in the world \<^verbatim>\<open>fn\<close> left.
\<close>

definition timer ::
  "string \<Rightarrow> timing_type \<Rightarrow> 'r async_fn \<Rightarrow> world \<Rightarrow> 'r outcome \<times> world \<times> callback list" where
  "timer name' type fn w =
     (let start = now w in
      case await_call FnCallback fn w of
        (Rejected e, w1, cs) \<Rightarrow> (Rejected e, w1, cs)
      | (Resolved result, w1, cs) \<Rightarrow>
          let (timingType, w2) =
                (case map_of (timings w1) (type_key type) of
                   Some a \<Rightarrow> (a, w1)
                 | None \<Rightarrow> new_array (type_key type) w1);
              w3 = push timingType \<lparr>name = name', time = now w2 - start\<rparr> w2
          in (Resolved result, w3, cs))"




section \<open>The properties, in the words of the specification\<close>

text \<open>
  The shape of a response as the specification words it: the value is neither \<^verbatim>\<open>null\<close>
  nor \<^verbatim>\<open>undefined\<close>, its status is a number, its status text a string, its headers an
  object and its body not \<^verbatim>\<open>undefined\<close>. An object is what \<^verbatim>\<open>typeof\<close> reports as one,
  which includes \<^verbatim>\<open>null\<close>.
\<close>

definition is_number :: "jsval \<Rightarrow> bool" where
  "is_number v = (case v of JNumber n \<Rightarrow> True | _ \<Rightarrow> False)"

definition is_string :: "jsval \<Rightarrow> bool" where
  "is_string v = (case v of JString s \<Rightarrow> True | _ \<Rightarrow> False)"

definition is_object :: "jsval \<Rightarrow> bool" where
  "is_object v = (case v of JObject ps \<Rightarrow> True | JNull \<Rightarrow> True | _ \<Rightarrow> False)"

definition response_shape :: "jsval \<Rightarrow> bool" where
  "response_shape v =
     (v \<noteq> JNull \<and> v \<noteq> JUndefined \<and>
      is_number (get_property v ''status'') \<and>
      is_string (get_property v ''statusText'') \<and>
      is_object (get_property v ''headers'') \<and>
      get_property v ''body'' \<noteq> JUndefined)"

fun is_rejected :: "'a outcome \<Rightarrow> bool" where
  "is_rejected (Rejected e) = True"
| "is_rejected (Resolved v) = False"

fun throws_Error :: "'a outcome \<Rightarrow> bool" where
  "throws_Error (Rejected e) = is_Error e"
| "throws_Error (Resolved v) = False"

text \<open>
  A loader or action "is defined and resolves to \<^verbatim>\<open>undefined\<close>", and "is defined and
  rejects", on the given arguments in the given world.
\<close>

definition resolves_undefined :: "'t data_function option \<Rightarrow> 't data_function_args \<Rightarrow> world \<Rightarrow> bool" where
  "resolves_undefined fo args w =
     (case fo of None \<Rightarrow> False | Some f \<Rightarrow> fst (f args w) = Resolved JUndefined)"

definition rejects_itself :: "'t data_function option \<Rightarrow> 't data_function_args \<Rightarrow> world \<Rightarrow> bool" where
  "rejects_itself fo args w =
     (case fo of None \<Rightarrow> False | Some f \<Rightarrow> is_rejected (fst (f args w)))"

text \<open>
  \<^verbatim>\<open>timings[k]\<close> read through the store: the contents of the array that the key holds,
  or nothing when the record has no such key.
\<close>

definition timings_at :: "world \<Rightarrow> string \<Rightarrow> timing_info list option" where
  "timings_at w k = map_option (arrays w) (map_of (timings w) k)"

definition entries_before :: "world \<Rightarrow> string \<Rightarrow> timing_info list" where
  "entries_before w k = (case timings_at w k of None \<Rightarrow> [] | Some old \<Rightarrow> old)"

text \<open>
  A string contains a word "as a whole word" when an occurrence of it has no word
  character directly before it and none directly after it.
\<close>

definition whole_word_in :: "string \<Rightarrow> string \<Rightarrow> bool" where
  "whole_word_in word s =
     (\<exists>before after. s = before @ word @ after \<and>
        (before = [] \<or> \<not> is_word_char (last before)) \<and>
        (after = [] \<or> \<not> is_word_char (hd after)))"



section \<open>Sample inputs\<close>

definition sample_world :: world where
  "sample_world = \<lparr>now = 100, timings = [], arrays = (\<lambda>a. []), next_ref = 0\<rparr>"

definition sample_request :: request where
  "sample_request = \<lparr>method = ''POST'', url = ''/posts''\<rparr>"

text \<open>A callback that resolves to \<open>v\<close> after \<open>d\<close> milliseconds, and one that rejects.\<close>

definition resolves :: "'r \<Rightarrow> number \<Rightarrow> 'r async_fn" where
  "resolves v d w = (Resolved v, w\<lparr>now := now w + d\<rparr>)"

definition rejects :: "thrown \<Rightarrow> 'r async_fn" where
  "rejects e w = (Rejected e, w)"

definition single_route :: "string \<Rightarrow> 't route_module \<Rightarrow> 't server_build" where
  "single_route routeId m = \<lparr>routes = [routeId \<mapsto> \<lparr>module = m\<rparr>]\<rparr>"

definition sample_stringify :: "jsval \<Rightarrow> string" where
  "sample_stringify v = (case v of JString s \<Rightarrow> ''\"'' @ s @ ''\"'' | _ \<Rightarrow> ''null'')"

definition hello_function :: "unit data_function" where
  "hello_function args = resolves (JString ''hello'') 5"

definition silent_function :: "unit data_function" where
  "silent_function args = resolves JUndefined 5"

definition boom_function :: "unit data_function" where
  "boom_function args = rejects (Error ''boom'')"

definition hello_build :: "unit server_build" where
  "hello_build = single_route ''routes/index'' \<lparr>loader = Some hello_function, action = Some hello_function\<rparr>"

definition boom_build :: "unit server_build" where
  "boom_build = single_route ''routes/index'' \<lparr>loader = Some boom_function, action = Some boom_function\<rparr>"

definition silent_build :: "unit server_build" where
  "silent_build = single_route ''routes/index'' \<lparr>loader = Some silent_function, action = None\<rparr>"

definition sample_args :: "unit data_function_args" where
  "sample_args = DataFunctionArgs sample_request JNull [] ()"

definition json_content :: "string response" where
  "json_content =
     \<lparr>headers_get = [''Content-Type'' \<mapsto> ''application/json; charset=utf-8''],
      response_json = ''parsed'', response_text = ''raw''\<rparr>"



section \<open>Proofs\<close>

subsection \<open>Auxiliary facts\<close>

lemma typeof_number: "(typeof x = ''number'') = is_number x"
  by (cases x) (simp_all add: is_number_def)

lemma typeof_string: "(typeof x = ''string'') = is_string x"
  by (cases x) (simp_all add: is_string_def)

lemma typeof_object: "(typeof x = ''object'') = is_object x"
  by (cases x) (simp_all add: is_object_def)

lemma typeof_undefined: "(typeof x = ''undefined'') = (x = JUndefined)"
  by (cases x) simp_all

lemma isResponse_shape: "isResponse v = response_shape v"
  by (simp add: isResponse_def response_shape_def typeof_number typeof_string
      typeof_object typeof_undefined)

lemma await_call_eq: "f w = (r, w') \<Longrightarrow> await_call c f w = (r, w', [c])"
  by (simp add: await_call_def)

lemma loadRouteData_cases:
  assumes "routes build routeId = Some route"
  shows "loadRouteData json build routeId req context params time' w =
     (case loader (module route) of
        None \<Rightarrow> (Resolved (json JNull), w, [])
      | Some f \<Rightarrow>
          (case f (DataFunctionArgs req context params time') w of
             (Rejected e, w') \<Rightarrow> (Rejected e, w', [LoaderCallback])
           | (Resolved r, w') \<Rightarrow>
               if r = JUndefined
               then (Rejected (Error (loader_missing_return routeId)), w', [LoaderCallback])
               else (Resolved (if response_shape r then r else json r), w', [LoaderCallback])))"
  using assms
  by (simp add: loadRouteData_def await_call_def isResponse_shape
      split: option.splits prod.splits outcome.splits)

lemma callRouteAction_cases:
  assumes "routes build routeId = Some route"
  shows "callRouteAction json build routeId req context params time' w =
     (case action (module route) of
        None \<Rightarrow> (Rejected (Error (action_missing req routeId)), w, [])
      | Some f \<Rightarrow>
          (case f (DataFunctionArgs req context params time') w of
             (Rejected e, w') \<Rightarrow> (Rejected e, w', [ActionCallback])
           | (Resolved r, w') \<Rightarrow>
               if r = JUndefined
               then (Rejected (Error (action_missing_return routeId)), w', [ActionCallback])
               else (Resolved (if response_shape r then r else json r), w', [ActionCallback])))"
  using assms
  by (simp add: callRouteAction_def await_call_def isResponse_shape
      split: option.splits prod.splits outcome.splits)

lemma unknown_route:
  assumes "routes build routeId = None"
  shows "loadRouteData json build routeId req context params time' w = (Rejected TypeError, w, [])"
    and "callRouteAction json build routeId req context params time' w = (Rejected TypeError, w, [])"
  using assms by (simp_all add: loadRouteData_def callRouteAction_def)

lemma json_response_shape: "response_shape (json_response stringify v)"
  by (simp add: json_response_def response_shape_def is_number_def is_string_def is_object_def)

lemma sample_route: "routes hello_build ''routes/index'' = Some \<lparr>module = \<lparr>loader = Some hello_function, action = Some hello_function\<rparr>\<rparr>"
  by (simp add: hello_build_def single_route_def)

lemma boom_route:
  "routes boom_build ''routes/index'' =
     Some \<lparr>module = \<lparr>loader = Some boom_function, action = Some boom_function\<rparr>\<rparr>"
  by (simp add: boom_build_def single_route_def)

lemma sublist_third: "sublist x (a @ m @ b @ x @ r)"
  by (metis append.assoc sublist_appendI)

lemma sublist_fourth: "sublist x (a @ m @ b @ u @ c @ d @ x @ r)"
  by (metis append.assoc sublist_appendI)

lemma message_parts:
  "sublist routeId (loader_missing_return routeId)"
  "sublist routeId (action_missing_return routeId)"
  "sublist routeId (action_missing req routeId)"
  "sublist (method req) (action_missing req routeId)"
  "sublist (url req) (action_missing req routeId)"
  unfolding loader_missing_return_def action_missing_return_def action_missing_def
  by (rule sublist_appendI sublist_third sublist_fourth)+


lemma timer_present:
  assumes "fn w = (Resolved v, w1)" and "map_of (timings w1) (type_key type) = Some a"
  shows "timer name' type fn w =
    (Resolved v,
     w1\<lparr>arrays := (arrays w1)(a := arrays w1 a @ [\<lparr>name = name', time = now w1 - now w\<rparr>])\<rparr>,
     [FnCallback])"
  using assms by (simp add: timer_def await_call_def push_def)

lemma timer_absent:
  assumes "fn w = (Resolved v, w1)" and "map_of (timings w1) (type_key type) = None"
  shows "timer name' type fn w =
    (Resolved v,
     w1\<lparr>timings := timings w1 @ [(type_key type, next_ref w1)],
        arrays := (arrays w1)(next_ref w1 := [\<lparr>name = name', time = now w1 - now w\<rparr>]),
        next_ref := Suc (next_ref w1)\<rparr>,
     [FnCallback])"
  using assms by (simp add: timer_def await_call_def push_def new_array_def)

lemma map_of_snoc_same: "map_of xs k = None \<Longrightarrow> map_of (xs @ [(k, v)]) k = Some v"
  by (simp add: map_add_def)



lemma match_at_literal:
  "i \<le> length s \<Longrightarrow>
   match_at (map Lit lit @ rest) s i =
     (i + length lit \<le> length s \<and> take (length lit) (drop i s) = lit \<and>
      match_at rest s (i + length lit))"
proof (induction lit arbitrary: i)
  case Nil
  then show ?case by simp
next
  case (Cons c lit)
  show ?case
  proof (cases "i < length s")
    case True
    then have "drop i s = s ! i # drop (Suc i) s"
      by (simp add: Cons_nth_drop_Suc)
    with True Cons.IH [of "Suc i"] show ?thesis
      by auto
  next
    case False
    then show ?thesis by simp
  qed
qed

lemma regex_test_iff:
  "regex_test p s = (\<exists>i\<le>length s. match_at p s i)"
  unfolding regex_test_def list_ex_iff set_upt Bex_def atLeastLessThan_iff less_Suc_eq_le
  by simp

lemma whole_word_regex:
  assumes ne: "word \<noteq> []"
    and first: "is_word_char (hd word)"
    and final: "is_word_char (last word)"
  shows "regex_test (WordBoundary # map Lit word @ [WordBoundary]) s = whole_word_in word s"
proof
  let ?n = "length word"
  assume "regex_test (WordBoundary # map Lit word @ [WordBoundary]) s"
  then obtain i where i: "i \<le> length s" and bl: "word_boundary s i"
    and fit: "i + ?n \<le> length s" and occ: "take ?n (drop i s) = word"
    and br: "word_boundary s (i + ?n)"
    by (auto simp: regex_test_iff match_at_literal)
  from ne have n: "0 < ?n" by simp
  with fit have lt: "i < length s" by linarith
  have split: "s = take i s @ word @ drop (i + ?n) s"
  proof -
    have "s = take i s @ drop i s" by simp
    also have "drop i s = take ?n (drop i s) @ drop ?n (drop i s)"
      by (simp only: append_take_drop_id)
    finally show ?thesis using occ by (simp add: add.commute)
  qed
  have at_i: "s ! i = hd word"
  proof -
    have "hd (take ?n (drop i s)) = s ! i"
      using n lt by (simp add: hd_drop_conv_nth)
    with occ show ?thesis by simp
  qed
  have at_end: "s ! (i + ?n - 1) = last word"
  proof -
    have "last word = word ! (?n - 1)" using ne by (simp add: last_conv_nth)
    also have "\<dots> = take ?n (drop i s) ! (?n - 1)" using occ by simp
    also have "\<dots> = drop i s ! (?n - 1)" using n by (intro nth_take) linarith
    also have "\<dots> = s ! (i + (?n - 1))" using fit by simp
    also have "i + (?n - 1) = i + ?n - 1" using n by linarith
    finally show ?thesis by simp
  qed
  have left: "take i s = [] \<or> \<not> is_word_char (last (take i s))"
  proof (cases "i = 0")
    case True
    then show ?thesis by simp
  next
    case False
    have "is_word_at s i" using at_i first lt by (simp add: is_word_at_def)
    with bl False have "\<not> is_word_at s (i - 1)" by (simp add: word_boundary_def)
    moreover have "last (take i s) = s ! (i - 1)"
    proof -
      have "take i s \<noteq> []" using False lt by auto
      then have "last (take i s) = take i s ! (length (take i s) - 1)"
        by (rule last_conv_nth)
      also have "length (take i s) = i" using i by simp
      also have "take i s ! (i - 1) = s ! (i - 1)" using False by (intro nth_take) linarith
      finally show ?thesis .
    qed
    ultimately show ?thesis using False i by (simp add: is_word_at_def)
  qed
  have right: "drop (i + ?n) s = [] \<or> \<not> is_word_char (hd (drop (i + ?n) s))"
  proof (cases "i + ?n < length s")
    case False
    then show ?thesis by simp
  next
    case True
    have "i + ?n - 1 < length s" using n fit by linarith
    then have "is_word_at s (i + ?n - 1)" using at_end final by (simp add: is_word_at_def)
    moreover have "0 < i + ?n" using n by linarith
    ultimately have "\<not> is_word_at s (i + ?n)" using br by (simp add: word_boundary_def)
    with True show ?thesis by (simp add: is_word_at_def hd_drop_conv_nth)
  qed
  from split left right show "whole_word_in word s"
    unfolding whole_word_in_def by blast
next
  let ?n = "length word"
  assume "whole_word_in word s"
  then obtain before after where s: "s = before @ word @ after"
    and left: "before = [] \<or> \<not> is_word_char (last before)"
    and right: "after = [] \<or> \<not> is_word_char (hd after)"
    unfolding whole_word_in_def by blast
  let ?i = "length before"
  from ne have n: "0 < ?n" by simp
  have w_i: "is_word_at s ?i"
    using s ne first by (simp add: is_word_at_def nth_append hd_conv_nth)
  have "\<not> (0 < ?i \<and> is_word_at s (?i - 1))"
  proof (cases "before = []")
    case True
    then show ?thesis by simp
  next
    case False
    then have "s ! (?i - 1) = last before"
      using s by (simp add: nth_append last_conv_nth)
    with left False show ?thesis by (simp add: is_word_at_def)
  qed
  with w_i have bl: "word_boundary s ?i" by (simp add: word_boundary_def)
  have w_e: "is_word_at s (?i + ?n - 1)"
  proof -
    have idx: "?i + ?n - 1 = ?i + (?n - 1)" using n by linarith
    have "s ! (?i + (?n - 1)) = (word @ after) ! (?n - 1)"
      unfolding s by (simp only: nth_append_length_plus)
    also have "\<dots> = word ! (?n - 1)" using ne by (simp add: nth_append)
    also have "\<dots> = last word" using ne by (simp add: last_conv_nth)
    finally have "is_word_char (s ! (?i + (?n - 1)))" using final by simp
    moreover have "?i + (?n - 1) < length s"
    proof -
      have "length s = ?i + ?n + length after" using s by simp
      with n show ?thesis by linarith
    qed
    ultimately show ?thesis unfolding idx by (simp add: is_word_at_def)
  qed
  have "\<not> is_word_at s (?i + ?n)"
  proof (cases "after = []")
    case True
    then show ?thesis using s by (simp add: is_word_at_def)
  next
    case False
    then have "s ! (?i + ?n) = hd after"
      using s by (simp add: nth_append hd_conv_nth)
    with right False show ?thesis by (simp add: is_word_at_def)
  qed
  moreover have "0 < ?i + ?n" using n by linarith
  ultimately have br: "word_boundary s (?i + ?n)" using w_e by (simp add: word_boundary_def)
  have "take ?n (drop ?i s) = word" using s by simp
  moreover have "?i + ?n \<le> length s" using s by simp
  ultimately have "match_at (WordBoundary # map Lit word @ [WordBoundary]) s ?i"
    using bl br by (simp add: match_at_literal)
  moreover have "?i \<le> length s" using s by simp
  ultimately show "regex_test (WordBoundary # map Lit word @ [WordBoundary]) s"
    unfolding regex_test_iff by blast
qed

lemma application_json_test:
  "regex_test application_json_re s = whole_word_in ''application/json'' s"
  unfolding application_json_re_def
  by (rule whole_word_regex) (simp_all add: is_word_char_def)


lemma whole_word_nonempty: "whole_word_in word s \<Longrightarrow> word \<noteq> [] \<Longrightarrow> s \<noteq> []"
  by (auto simp: whole_word_in_def)



subsection \<open>Loader and action results\<close>

text \<open>
  C1. When the route is in the build, its loader (for \<^verbatim>\<open>loadRouteData\<close>) or its action
  (for \<^verbatim>\<open>callRouteAction\<close>) is defined and resolves to a value \<open>r\<close> other than
  \<^verbatim>\<open>undefined\<close>, the function resolves to \<open>r\<close> itself if \<open>r\<close> has the shape of a
  response, and to \<open>json r\<close> otherwise; it leaves the world as the callback left it.
  The test \<^verbatim>\<open>isResponse\<close> is the shape that the specification spells out.
\<close>

theorem route_data_normalised:
  assumes route: "routes build routeId = Some route"
    and call: "f (DataFunctionArgs req context params time') w = (Resolved r, w')"
    and defined: "r \<noteq> JUndefined"
  shows "(loader (module route) = Some f \<longrightarrow>
            loadRouteData json build routeId req context params time' w =
              (Resolved (if response_shape r then r else json r), w', [LoaderCallback])) \<and>
         (action (module route) = Some f \<longrightarrow>
            callRouteAction json build routeId req context params time' w =
              (Resolved (if response_shape r then r else json r), w', [ActionCallback])) \<and>
         isResponse r = response_shape r"
  using call defined
  by (simp add: loadRouteData_cases [OF route] callRouteAction_cases [OF route] isResponse_shape)

theorem route_data_normalised_witness:
  "loadRouteData (json_response sample_stringify) hello_build ''routes/index'' sample_request
       JNull [] () sample_world =
     (Resolved (json_response sample_stringify (JString ''hello'')),
      sample_world\<lparr>now := 105\<rparr>, [LoaderCallback]) \<and>
   callRouteAction (json_response sample_stringify) hello_build ''routes/index'' sample_request
       JNull [] () sample_world =
     (Resolved (json_response sample_stringify (JString ''hello'')),
      sample_world\<lparr>now := 105\<rparr>, [ActionCallback])"
proof -
  have call: "hello_function (DataFunctionArgs sample_request JNull [] ()) sample_world =
      (Resolved (JString ''hello''), sample_world\<lparr>now := 105\<rparr>)"
    by (simp add: hello_function_def resolves_def sample_world_def)
  have "\<not> response_shape (JString ''hello'')"
    by (simp add: response_shape_def is_number_def)
  with route_data_normalised [of hello_build "''routes/index''" _ hello_function
      sample_request JNull "[]" "()" sample_world _ _ "json_response sample_stringify",
      OF sample_route call]
  show ?thesis by simp
qed

subsection \<open>Rejections\<close>

text \<open>
  C2 as worded says that an \<^verbatim>\<open>Error\<close> is thrown only if the loader, or the action,
  resolves to \<^verbatim>\<open>undefined\<close>. Nothing catches what the callback throws: a loader and an
  action that reject with an \<^verbatim>\<open>Error\<close> of their own make both functions throw it,
  though neither callback resolved to \<^verbatim>\<open>undefined\<close>.
\<close>

theorem route_data_rejections_counterexample:
  "routes boom_build ''routes/index'' =
     Some \<lparr>module = \<lparr>loader = Some boom_function, action = Some boom_function\<rparr>\<rparr> \<and>
   \<not> resolves_undefined (Some boom_function) sample_args sample_world \<and>
   throws_Error (fst (loadRouteData (json_response sample_stringify) boom_build ''routes/index''
       sample_request JNull [] () sample_world)) \<and>
   throws_Error (fst (callRouteAction (json_response sample_stringify) boom_build ''routes/index''
       sample_request JNull [] () sample_world))"
  by (simp add: loadRouteData_def callRouteAction_def await_call_def boom_build_def
      single_route_def boom_function_def rejects_def resolves_undefined_def)

text \<open>
  C2, as amended. For a route of the build, \<^verbatim>\<open>loadRouteData\<close> resolves to \<open>json null\<close>
  and invokes nothing when the module has no loader. It rejects exactly when the loader
  is defined and either resolves to \<^verbatim>\<open>undefined\<close>, then with an \<^verbatim>\<open>Error\<close> whose message
  names the route, or rejects itself, then with the loader's own rejection.
  \<^verbatim>\<open>callRouteAction\<close> rejects exactly when the module has no action, then with an
  \<^verbatim>\<open>Error\<close> whose message names the request method, the URL and the route and without
  invoking anything, or the action resolves to \<^verbatim>\<open>undefined\<close>, then with an \<^verbatim>\<open>Error\<close>
  whose message names the route, or the action rejects itself, then with the action's
  own rejection. For a route that the build does not have, both reject with the
  \<^verbatim>\<open>TypeError\<close> of the property read.
\<close>

theorem route_data_rejections:
  "(routes build routeId = None \<longrightarrow>
      fst (loadRouteData json build routeId req context params time' w) = Rejected TypeError \<and>
      fst (callRouteAction json build routeId req context params time' w) = Rejected TypeError) \<and>
   (\<forall>route. routes build routeId = Some route \<longrightarrow>
      (loader (module route) = None \<longrightarrow>
         loadRouteData json build routeId req context params time' w =
           (Resolved (json JNull), w, [])) \<and>
      is_rejected (fst (loadRouteData json build routeId req context params time' w)) =
        (resolves_undefined (loader (module route)) (DataFunctionArgs req context params time') w \<or>
         rejects_itself (loader (module route)) (DataFunctionArgs req context params time') w) \<and>
      (resolves_undefined (loader (module route)) (DataFunctionArgs req context params time') w \<longrightarrow>
         fst (loadRouteData json build routeId req context params time' w) =
           Rejected (Error (loader_missing_return routeId))) \<and>
      (\<forall>f. loader (module route) = Some f \<and>
           is_rejected (fst (f (DataFunctionArgs req context params time') w)) \<longrightarrow>
         fst (loadRouteData json build routeId req context params time' w) =
           fst (f (DataFunctionArgs req context params time') w)) \<and>
      is_rejected (fst (callRouteAction json build routeId req context params time' w)) =
        (action (module route) = None \<or>
         resolves_undefined (action (module route)) (DataFunctionArgs req context params time') w \<or>
         rejects_itself (action (module route)) (DataFunctionArgs req context params time') w) \<and>
      (action (module route) = None \<longrightarrow>
         callRouteAction json build routeId req context params time' w =
           (Rejected (Error (action_missing req routeId)), w, [])) \<and>
      (resolves_undefined (action (module route)) (DataFunctionArgs req context params time') w \<longrightarrow>
         fst (callRouteAction json build routeId req context params time' w) =
           Rejected (Error (action_missing_return routeId))) \<and>
      (\<forall>f. action (module route) = Some f \<and>
           is_rejected (fst (f (DataFunctionArgs req context params time') w)) \<longrightarrow>
         fst (callRouteAction json build routeId req context params time' w) =
           fst (f (DataFunctionArgs req context params time') w))) \<and>
   sublist routeId (loader_missing_return routeId) \<and>
   sublist routeId (action_missing_return routeId) \<and>
   sublist routeId (action_missing req routeId) \<and>
   sublist (method req) (action_missing req routeId) \<and>
   sublist (url req) (action_missing req routeId)"
  (is "?unknown \<and> (\<forall>route. ?present route \<longrightarrow> ?known route) \<and> ?messages")
proof -
  have unknown: "?unknown"
    by (simp add: unknown_route)
  have known: "?known route" if route: "?present route" for route
    unfolding loadRouteData_cases [OF route] callRouteAction_cases [OF route]
      resolves_undefined_def rejects_itself_def
    by (auto split: option.splits prod.splits outcome.splits)
  have messages: "?messages"
    by (simp only: message_parts simp_thms)
  from unknown known messages show ?thesis by blast
qed

theorem route_data_rejections_witness:
  "fst (loadRouteData (json_response sample_stringify) boom_build ''routes/index''
       sample_request JNull [] () sample_world) = Rejected (Error ''boom'') \<and>
   fst (callRouteAction (json_response sample_stringify) boom_build ''routes/index''
       sample_request JNull [] () sample_world) = Rejected (Error ''boom'') \<and>
   fst (loadRouteData (json_response sample_stringify) boom_build ''routes/other''
       sample_request JNull [] () sample_world) = Rejected TypeError \<and>
   fst (loadRouteData (json_response sample_stringify) silent_build ''routes/index''
       sample_request JNull [] () sample_world) =
     Rejected (Error (''You defined a loader for route \"routes/index\" but didn't return '' @
       ''anything from your `loader` function. Please return a value or `null`.'')) \<and>
   callRouteAction (json_response sample_stringify) silent_build ''routes/index''
       sample_request JNull [] () sample_world =
     (Rejected (Error (''You made a POST request to /posts but did not provide '' @
        ''an `action` for route \"routes/index\", so there is no way to handle the '' @
        ''request.'')), sample_world, []) \<and>
   sublist ''POST'' (action_missing sample_request ''routes/index'')"
proof -
  have none: "routes boom_build ''routes/other'' = None"
    by (simp add: boom_build_def single_route_def)
  have rej: "is_rejected (fst (boom_function (DataFunctionArgs sample_request JNull [] ()) sample_world))"
    "fst (boom_function (DataFunctionArgs sample_request JNull [] ()) sample_world) = Rejected (Error ''boom'')"
    by (simp_all add: boom_function_def rejects_def)
  have silent: "routes silent_build ''routes/index'' =
      Some \<lparr>module = \<lparr>loader = Some silent_function, action = None\<rparr>\<rparr>"
    "resolves_undefined (Some silent_function) (DataFunctionArgs sample_request JNull [] ()) sample_world"
    by (simp_all add: silent_build_def single_route_def silent_function_def resolves_def
        resolves_undefined_def)
  have req: "method sample_request = ''POST''" "url sample_request = ''/posts''"
    by (simp_all add: sample_request_def)
  show ?thesis
    using route_data_rejections [of boom_build "''routes/index''" "json_response sample_stringify"
        sample_request JNull "[]" "()" sample_world]
      route_data_rejections [of boom_build "''routes/other''" "json_response sample_stringify"
        sample_request JNull "[]" "()" sample_world]
      route_data_rejections [of silent_build "''routes/index''" "json_response sample_stringify"
        sample_request JNull "[]" "()" sample_world]
      boom_route none rej silent req
    by (simp add: loader_missing_return_def action_missing_def)
qed

text \<open>
  C4. With \<^verbatim>\<open>json\<close> as modelled from the specification, whatever \<^verbatim>\<open>loadRouteData\<close> or
  \<^verbatim>\<open>callRouteAction\<close> resolves to has the shape of a response, the one that
  \<^verbatim>\<open>isResponse\<close> tests.
\<close>

theorem resolved_value_is_response:
  assumes "loadRouteData (json_response stringify) build routeId req context params time' w = (Resolved v, w', cs) \<or>
           callRouteAction (json_response stringify) build routeId req context params time' w = (Resolved v, w', cs)"
  shows "response_shape v \<and> isResponse v"
proof (cases "routes build routeId")
  case None
  with assms show ?thesis by (simp add: unknown_route)
next
  case (Some route)
  from assms show ?thesis
    unfolding loadRouteData_cases [OF Some] callRouteAction_cases [OF Some] isResponse_shape
    by (auto simp: json_response_shape split: option.splits prod.splits outcome.splits if_splits)
qed

theorem resolved_value_is_response_witness:
  "loadRouteData (json_response sample_stringify) hello_build ''routes/index'' sample_request
       JNull [] () sample_world =
     (Resolved (json_response sample_stringify (JString ''hello'')),
      sample_world\<lparr>now := 105\<rparr>, [LoaderCallback]) \<and>
   isResponse (json_response sample_stringify (JString ''hello''))"
proof -
  have run: "loadRouteData (json_response sample_stringify) hello_build ''routes/index''
       sample_request JNull [] () sample_world =
     (Resolved (json_response sample_stringify (JString ''hello'')),
      sample_world\<lparr>now := 105\<rparr>, [LoaderCallback])"
    by (simp add: loadRouteData_cases [OF sample_route] hello_function_def resolves_def
        sample_world_def response_shape_def is_number_def)
  then show ?thesis
    using resolved_value_is_response [of sample_stringify hello_build "''routes/index''"
        sample_request JNull "[]" "()" sample_world] by blast
qed

subsection \<open>Callbacks\<close>



subsection \<open>Timings\<close>

text \<open>
  C3. When \<^verbatim>\<open>fn\<close> resolves to \<open>v\<close>, \<^verbatim>\<open>timer\<close> resolves to \<open>v\<close>, and afterwards
  \<^verbatim>\<open>timings[type]\<close> holds what it held when \<^verbatim>\<open>fn\<close> resolved, or nothing if the key was
  absent then, followed by exactly one new entry: the given name with the difference of
  the clock after \<^verbatim>\<open>fn\<close> resolved and the clock before it was invoked.
\<close>

theorem timer_records:
  assumes "fn w = (Resolved v, w1)"
  shows "\<exists>w3. timer name' type fn w = (Resolved v, w3, [FnCallback]) \<and>
           timings_at w3 (type_key type) =
             Some (entries_before w1 (type_key type) @ [\<lparr>name = name', time = now w1 - now w\<rparr>]) \<and>
           (timings_at w1 (type_key type) = None \<longrightarrow> entries_before w1 (type_key type) = []) \<and>
           length (entries_before w3 (type_key type)) = Suc (length (entries_before w1 (type_key type)))"
proof (cases "map_of (timings w1) (type_key type)")
  case None
  show ?thesis
    unfolding timer_absent [of fn w, OF assms None]
    by (simp add: timings_at_def entries_before_def map_of_snoc_same None del: map_of_append)
next
  case (Some a)
  show ?thesis
    unfolding timer_present [of fn w, OF assms Some]
    by (simp add: timings_at_def entries_before_def Some)
qed

theorem timer_records_witness:
  "\<exists>w3. timer ''routes/index'' LoaderType (resolves (1::nat) 5) sample_world = (Resolved 1, w3, [FnCallback]) \<and>
     timings_at w3 ''loader'' = Some [\<lparr>name = ''routes/index'', time = 5\<rparr>]"
proof -
  have "resolves (1::nat) 5 sample_world = (Resolved 1, sample_world\<lparr>now := 105\<rparr>)"
    by (simp add: resolves_def sample_world_def)
  from timer_records [of "resolves (1::nat) 5" sample_world, OF this, of "''routes/index''" LoaderType]
  obtain w3 where run: "timer ''routes/index'' LoaderType (resolves (1::nat) 5) sample_world =
        (Resolved 1, w3, [FnCallback])"
    and rec: "timings_at w3 (type_key LoaderType) =
        Some (entries_before (sample_world\<lparr>now := 105\<rparr>) (type_key LoaderType) @
          [\<lparr>name = ''routes/index'', time = now (sample_world\<lparr>now := 105\<rparr>) - now sample_world\<rparr>])"
    by blast
  have "entries_before (sample_world\<lparr>now := 105\<rparr>) (type_key LoaderType) = []"
    by (simp add: entries_before_def timings_at_def sample_world_def)
  with rec have "timings_at w3 ''loader'' = Some [\<lparr>name = ''routes/index'', time = 5\<rparr>]"
    by (simp add: sample_world_def)
  with run show ?thesis by blast
qed



subsection \<open>Response bodies\<close>

text \<open>
  C7. \<^verbatim>\<open>extractData\<close> returns what the \<^verbatim>\<open>json()\<close> method of the response returns if the
  response has a \<^verbatim>\<open>Content-Type\<close> header that contains \<^verbatim>\<open>application/json\<close> as a whole
  word, and what \<^verbatim>\<open>text()\<close> returns in every other case, an absent header included; it
  calls that one method and not the other. The regular expression matches a string
  exactly when the string contains \<^verbatim>\<open>application/json\<close> as a whole word.
\<close>

theorem extractData_content_type:
  "extractData res =
     (if \<exists>ct. headers_get res ''Content-Type'' = Some ct \<and> whole_word_in ''application/json'' ct
      then (response_json res, [HeadersGet ''Content-Type'', ResponseJson])
      else (response_text res, [HeadersGet ''Content-Type'', ResponseText])) \<and>
   (ResponseJson \<in> set (snd (extractData res))) =
     (\<exists>ct. headers_get res ''Content-Type'' = Some ct \<and> whole_word_in ''application/json'' ct) \<and>
   (ResponseText \<in> set (snd (extractData res))) =
     (\<not> (\<exists>ct. headers_get res ''Content-Type'' = Some ct \<and> whole_word_in ''application/json'' ct)) \<and>
   (headers_get res ''Content-Type'' = None \<longrightarrow>
      extractData res = (response_text res, [HeadersGet ''Content-Type'', ResponseText])) \<and>
   (\<forall>ct. regex_test application_json_re ct = whole_word_in ''application/json'' ct)"
proof (cases "headers_get res ''Content-Type''")
  case None
  then show ?thesis by (simp add: extractData_def application_json_test)
next
  case (Some ct)
  have "(ct \<noteq> [] \<and> regex_test application_json_re ct) = whole_word_in ''application/json'' ct"
    using whole_word_nonempty [of "''application/json''" ct]
    by (auto simp: application_json_test)
  with Some show ?thesis by (simp add: extractData_def application_json_test)
qed

theorem extractData_content_type_witness:
  "extractData json_content = (''parsed'', [HeadersGet ''Content-Type'', ResponseJson]) \<and>
   whole_word_in ''application/json'' ''application/json; charset=utf-8''"
proof -
  have "extractData json_content = (''parsed'', [HeadersGet ''Content-Type'', ResponseJson])"
    by (simp add: extractData_def json_content_def regex_test_def application_json_re_def
        word_boundary_def is_word_at_def is_word_char_def)
  moreover from this have "ResponseJson \<in> set (snd (extractData json_content))" by simp
  then have "\<exists>ct. headers_get json_content ''Content-Type'' = Some ct \<and> whole_word_in ''application/json'' ct"
    using extractData_content_type [of json_content] by blast
  then have "whole_word_in ''application/json'' ''application/json; charset=utf-8''"
    by (simp add: json_content_def)
  ultimately show ?thesis by blast
qed

subsection \<open>The \<^verbatim>\<open>Server-Timing\<close> header\<close>



end
